theory Spec2Isabelle
  imports Main
begin

section \<open>Python values\<close>

text \<open>
  A Python \<open>str\<close> is a HOL \<open>string\<close>: a list of characters, each read as a code point
  below 256. A component that may be \<open>None\<close> is a \<open>string option\<close>. The models of the
  standard library (\<open>str\<close> methods, \<open>re\<close>, \<open>urllib.parse\<close>, \<open>posixpath\<close>, \<open>ntpath\<close>)
  follow CPython 3.11 on such strings. One library function leads out of them:
  \<open>urllib.parse.unquote\<close> can decode escapes to a code point from 256 on or to
  U+FFFD. Its model, and every function that calls it, returns an option, \<open>None\<close>
  standing for a result with such a character.

  An exception is a value: \<open>ValueError\<close> carries the reason, one constructor per
  message of the source or of the library.
\<close>

datatype value_error =
    Must_have_scheme          \<comment> \<open>"URIs must have a scheme"\<close>
  | Invalid_scheme            \<comment> \<open>"Invalid scheme"\<close>
  | Authority_needs_slash     \<comment> \<open>"Paths with an authority must start with a slash '/'"\<close>
  | Double_slash_no_authority \<comment> \<open>"Paths without an authority cannot start with two slashes '//'"\<close>
  | No_path                   \<comment> \<open>"This uri has no path"\<close>
  | Substring_not_found       \<comment> \<open>str.index: "substring not found"\<close>
  | Invalid_IPv6_URL          \<comment> \<open>urlsplit: "Invalid IPv6 URL"\<close>
  | Invalid_bracketed_host    \<comment> \<open>urlsplit: the bracketed host is no IPv6 or IPvFuture address\<close>

datatype exn =
    ValueError value_error
  | AttributeError
  | TypeError
  | IndexError

definition truthy :: "string option \<Rightarrow> bool" where
  \<comment> \<open>Python's truth value of a component: \<open>None\<close> and \<open>""\<close> are false.\<close>
  "truthy v = (case v of None \<Rightarrow> False | Some s \<Rightarrow> s \<noteq> [])"

definition ascii_lowercase :: string where
  "ascii_lowercase = ''abcdefghijklmnopqrstuvwxyz''"

definition ascii_uppercase :: string where
  "ascii_uppercase = ''ABCDEFGHIJKLMNOPQRSTUVWXYZ''"

definition ascii_letters :: string where
  "ascii_letters = ascii_lowercase @ ascii_uppercase"

definition ascii_digits :: string where
  "ascii_digits = ''0123456789''"

definition is_ascii :: "char \<Rightarrow> bool" where
  "is_ascii c = ((of_char c :: nat) < 128)"

definition is_alpha :: "char \<Rightarrow> bool" where
  \<comment> \<open>The character class \<open>[a-zA-Z]\<close>.\<close>
  "is_alpha c = (c \<in> set ascii_letters)"

definition lower_char :: "char \<Rightarrow> char" where
  \<comment> \<open>\<open>str.lower\<close> on one code point below 256: A-Z become a-z, and the Latin-1
      capitals U+00C0..U+00DE but U+00D7 move up by 32.\<close>
  "lower_char c =
     (case map_of (zip ascii_uppercase ascii_lowercase) c of
        Some l \<Rightarrow> l
      | None \<Rightarrow>
          (let n = (of_char c :: nat)
           in if 192 \<le> n \<and> n \<le> 222 \<and> n \<noteq> 215 then char_of (n + 32) else c))"

definition py_lower :: "string \<Rightarrow> string" where
  "py_lower s = map lower_char s"

definition startswith :: "string \<Rightarrow> string \<Rightarrow> bool" where
  "startswith s pre = (take (length pre) s = pre)"

definition py_replace :: "char \<Rightarrow> string \<Rightarrow> string \<Rightarrow> string" where
  \<comment> \<open>\<open>s.replace(c, r)\<close> for a one-character \<open>c\<close>.\<close>
  "py_replace c r s = concat (map (\<lambda>x. if x = c then r else [x]) s)"

fun py_split :: "char \<Rightarrow> string \<Rightarrow> string list" where
  \<comment> \<open>\<open>s.split(c)\<close> for a one-character separator: never the empty list.\<close>
  "py_split c [] = [[]]"
| "py_split c (x # xs) =
     (if x = c then [] # py_split c xs
      else (case py_split c xs of h # t \<Rightarrow> (x # h) # t | [] \<Rightarrow> [[x]]))"

fun py_join :: "string \<Rightarrow> string list \<Rightarrow> string" where
  \<comment> \<open>\<open>sep.join(parts)\<close>\<close>
  "py_join sep [] = []"
| "py_join sep [x] = x"
| "py_join sep (x # y # ys) = x @ sep @ py_join sep (y # ys)"

definition py_find :: "string \<Rightarrow> char \<Rightarrow> nat \<Rightarrow> int" where
  \<comment> \<open>\<open>s.find(c, start)\<close>: the first index at or after \<open>start\<close>, or -1.\<close>
  "py_find s c start =
     (if c \<in> set (drop start s)
      then int (start + length (takeWhile (\<lambda>x. x \<noteq> c) (drop start s)))
      else - 1)"

definition py_rfind :: "string \<Rightarrow> char \<Rightarrow> int" where
  \<comment> \<open>\<open>s.rfind(c)\<close>: the last index, or -1.\<close>
  "py_rfind s c =
     (if c \<in> set s
      then int (length s) - 1 - int (length (takeWhile (\<lambda>x. x \<noteq> c) (rev s)))
      else - 1)"

definition py_index :: "string \<Rightarrow> char \<Rightarrow> nat \<Rightarrow> exn + int" where
  \<comment> \<open>\<open>s.index(c, start)\<close>: as \<open>find\<close>, but a miss raises ValueError.\<close>
  "py_index s c start =
     (if py_find s c start = - 1 then Inl (ValueError Substring_not_found)
      else Inr (py_find s c start))"

definition py_getitem :: "string \<Rightarrow> nat \<Rightarrow> exn + string" where
  \<comment> \<open>\<open>s[i]\<close> for \<open>i \<ge> 0\<close>: a one-character string, IndexError out of range.\<close>
  "py_getitem s i = (if i < length s then Inr [s ! i] else Inl IndexError)"

definition partition_sep :: "char \<Rightarrow> string \<Rightarrow> string \<times> string" where
  \<comment> \<open>\<open>s.split(c, 1)\<close> when \<open>c\<close> occurs in \<open>s\<close>: the text before the first \<open>c\<close> and
      the text after it.\<close>
  "partition_sep c s = (takeWhile (\<lambda>x. x \<noteq> c) s, drop 1 (dropWhile (\<lambda>x. x \<noteq> c) s))"

section \<open>The regular expressions of \<open>pygls.uris\<close>\<close>

definition scheme_chars :: string where
  \<comment> \<open>The class \<open>[a-zA-Z\d+.-]\<close>; it is also \<open>urllib.parse.scheme_chars\<close>.\<close>
  "scheme_chars = ascii_letters @ ascii_digits @ ''+-.''"

definition SCHEME_match :: "string \<Rightarrow> bool" where
  \<comment> \<open>\<open>SCHEME.match(s)\<close> for \<open>^[a-zA-Z][a-zA-Z\d+.-]*$\<close>. Python's \<open>$\<close> also matches
      just before a newline that ends the string.\<close>
  "SCHEME_match s =
     (case s of
        [] \<Rightarrow> False
      | c # cs \<Rightarrow>
          is_alpha c \<and>
          (list_all (\<lambda>x. x \<in> set scheme_chars) cs \<or>
           (cs \<noteq> [] \<and> last cs = CHR 0x0A \<and> list_all (\<lambda>x. x \<in> set scheme_chars) (butlast cs))))"

definition RE_DRIVE_LETTER_PATH_match :: "string \<Rightarrow> (string \<times> string \<times> nat) option" where
  \<comment> \<open>\<open>RE_DRIVE_LETTER_PATH.match(p)\<close> for \<open>^(\/?)([a-zA-Z]:)\<close>: group 1, group 2 and
      the end of the match. When the greedy \<open>/\<close> is taken and no drive follows, the
      retry without it fails too, since \<open>/\<close> is no letter.\<close>
  "RE_DRIVE_LETTER_PATH_match p =
     (let g1 = (if startswith p ''/'' then ''/'' else '''')
      in case drop (length g1) p of
           l # c # _ \<Rightarrow>
             if is_alpha l \<and> c = CHR '':'' then Some (g1, [l, c], length g1 + 2) else None
         | _ \<Rightarrow> None)"

section \<open>\<open>urllib.parse\<close> and \<open>posixpath\<close>\<close>

definition hex_digits :: string where
  "hex_digits = ''0123456789ABCDEF''"

definition hexval :: "char \<Rightarrow> nat option" where
  \<comment> \<open>The value of a hexadecimal digit of either case (\<open>_hexdig\<close>).\<close>
  "hexval c =
     map_of (zip ''0123456789ABCDEFabcdef''
                 [0, 1, 2, 3, 4, 5, 6, 7, 8, 9, 10, 11, 12, 13, 14, 15, 10, 11, 12, 13, 14, 15]) c"

datatype piece =
    Literal char   \<comment> \<open>a character of the text that is not part of an escape\<close>
  | Byte nat       \<comment> \<open>the byte that an escape \<open>%XX\<close> stands for\<close>

definition hex_pair :: "string \<Rightarrow> bool" where
  \<comment> \<open>The text starts with two hexadecimal digits: \<open>item[:2]\<close> is a key of
      \<open>_hextobyte\<close>.\<close>
  "hex_pair s = (case s of a # b # _ \<Rightarrow> hexval a \<noteq> None \<and> hexval b \<noteq> None | _ \<Rightarrow> False)"

definition unquote_item :: "string \<Rightarrow> piece list" where
  \<comment> \<open>One piece after a \<open>%\<close> in \<open>unquote_to_bytes\<close>: two hexadecimal digits become
      the byte, anything else keeps its \<open>%\<close>.\<close>
  "unquote_item item =
     (case item of
        a # b # rest \<Rightarrow>
          (case (hexval a, hexval b) of
             (Some x, Some y) \<Rightarrow> Byte (16 * x + y) # map Literal rest
           | _ \<Rightarrow> map Literal (CHR ''%'' # item))
      | _ \<Rightarrow> map Literal (CHR ''%'' # item))"

definition unquote_to_bytes :: "string \<Rightarrow> piece list" where
  \<comment> \<open>\<open>unquote_to_bytes\<close>: the text is split at every \<open>%\<close>. \<open>unquote\<close> calls it on
      each maximal run of ASCII characters; a character outside ASCII is never a
      hexadecimal digit, so splitting the whole text finds the same escapes.\<close>
  "unquote_to_bytes s =
     (let bits = py_split (CHR ''%'') s
      in map Literal (hd bits) @ concat (map unquote_item (tl bits)))"

fun utf8_decode :: "piece list \<Rightarrow> string option" where
  \<comment> \<open>\<open>bytes.decode('utf-8', 'replace')\<close> on the bytes of the escapes. A character
      of the text stands for itself: it is an ASCII byte of its run, or it lies
      between two runs, and it ends the byte sequence before it. The bytes C2 and C3
      with a continuation byte give the code points 128 to 255. Every other sequence
      gives U+FFFD or a code point from 256 on, a character that a \<open>string\<close> does not
      have: the result is \<open>None\<close>.\<close>
  "utf8_decode [] = Some []"
| "utf8_decode (Literal c # ps) = map_option ((#) c) (utf8_decode ps)"
| "utf8_decode (Byte b # ps) =
     (if b < 128 then map_option ((#) (char_of b)) (utf8_decode ps)
      else if b = 194 \<or> b = 195
      then (case ps of
              Byte b2 # ps2 \<Rightarrow>
                if 128 \<le> b2 \<and> b2 < 192
                then map_option ((#) (char_of ((b - 192) * 64 + (b2 - 128)))) (utf8_decode ps2)
                else None
            | _ \<Rightarrow> None)
      else None)"

definition parse_unquote :: "string \<Rightarrow> string option" where
  \<comment> \<open>\<open>urllib.parse.unquote(s)\<close>; \<open>None\<close> when the decoded text has a character
      that is no code point below 256.\<close>
  "parse_unquote s =
     (if CHR ''%'' \<notin> set s then Some s else utf8_decode (unquote_to_bytes s))"

definition always_safe :: string where
  \<comment> \<open>\<open>_ALWAYS_SAFE\<close>\<close>
  "always_safe = ascii_letters @ ascii_digits @ ''_.-~''"

definition utf8_encode :: "string \<Rightarrow> string" where
  \<comment> \<open>\<open>s.encode('utf-8')\<close> for code points below 256: one byte below 128, else two.\<close>
  "utf8_encode s =
     concat (map (\<lambda>c. let n = (of_char c :: nat)
                       in if n < 128 then [c]
                          else [char_of (192 + n div 64), char_of (128 + n mod 64)]) s)"

definition quoter :: "char \<Rightarrow> string" where
  \<comment> \<open>\<open>_Quoter(safe='/')\<close> on one byte: itself when safe, else \<open>%XX\<close> in upper case.\<close>
  "quoter b =
     (if b \<in> set (always_safe @ ''/'') then [b]
      else [CHR ''%'', hex_digits ! ((of_char b :: nat) div 16), hex_digits ! ((of_char b :: nat) mod 16)])"

definition parse_quote :: "string \<Rightarrow> string" where
  \<comment> \<open>\<open>urllib.parse.quote(s)\<close> with its default \<open>safe='/'\<close>.\<close>
  "parse_quote s = concat (map quoter (utf8_encode s))"

definition uses_params :: "string list" where
  "uses_params = ['''', ''ftp'', ''hdl'', ''prospero'', ''http'', ''imap'',
                  ''https'', ''shttp'', ''rtsp'', ''rtsps'', ''rtspu'', ''sip'',
                  ''sips'', ''mms'', ''sftp'', ''tel'']"

definition uses_netloc :: "string list" where
  "uses_netloc = ['''', ''ftp'', ''http'', ''gopher'', ''nntp'', ''telnet'',
                  ''imap'', ''wais'', ''file'', ''mms'', ''https'', ''shttp'',
                  ''snews'', ''prospero'', ''rtsp'', ''rtsps'', ''rtspu'', ''rsync'',
                  ''svn'', ''svn+ssh'', ''sftp'', ''nfs'', ''git'', ''git+ssh'',
                  ''ws'', ''wss'']"

definition splitnetloc :: "string \<Rightarrow> string \<times> string" where
  \<comment> \<open>\<open>_splitnetloc(url, 2)\<close>: the text after the two slashes up to the first of
      \<open>/ ? #\<close>, and the rest.\<close>
  "splitnetloc url =
     (takeWhile (\<lambda>c. c \<notin> set ''/?#'') (drop 2 url),
      dropWhile (\<lambda>c. c \<notin> set ''/?#'') (drop 2 url))"

definition bracketed_host :: "string \<Rightarrow> string" where
  \<comment> \<open>\<open>netloc.partition('[')[2].partition(']')[0]\<close>\<close>
  "bracketed_host netloc =
     takeWhile (\<lambda>c. c \<noteq> CHR '']'') (drop 1 (dropWhile (\<lambda>c. c \<noteq> CHR ''['') netloc))"

definition urlsplit_rest ::
  "(string \<Rightarrow> bool) \<Rightarrow> string \<Rightarrow> string \<Rightarrow>
     exn + (string \<times> string \<times> string \<times> string \<times> string)" where
  \<comment> \<open>\<open>urllib.parse.urlsplit\<close> from the test for \<open>//\<close> on: \<open>sch\<close> is the scheme found
      and \<open>url1\<close> the text after it. The parameter \<open>chk\<close> stands for
      \<open>_check_bracketed_host\<close> (the \<open>ipaddress\<close> module decides it): true when the host
      between brackets is accepted. \<open>_checknetloc\<close> raises on no text below U+0100
      and is left out.\<close>
  "urlsplit_rest chk sch url1 =
     (let has_netloc = (take 2 url1 = ''//'');
          netloc = (if has_netloc then fst (splitnetloc url1) else '''');
          url2 = (if has_netloc then snd (splitnetloc url1) else url1);
          has_frag = (CHR ''#'' \<in> set url2);
          frag = (if has_frag then snd (partition_sep (CHR ''#'') url2) else '''');
          url3 = (if has_frag then fst (partition_sep (CHR ''#'') url2) else url2);
          has_query = (CHR ''?'' \<in> set url3);
          qry = (if has_query then snd (partition_sep (CHR ''?'') url3) else '''');
          url4 = (if has_query then fst (partition_sep (CHR ''?'') url3) else url3)
      in if has_netloc \<and> ((CHR ''['' \<in> set netloc) \<noteq> (CHR '']'' \<in> set netloc))
         then Inl (ValueError Invalid_IPv6_URL)
         else if has_netloc \<and> CHR ''['' \<in> set netloc \<and> CHR '']'' \<in> set netloc \<and>
                 \<not> chk (bracketed_host netloc)
         then Inl (ValueError Invalid_bracketed_host)
         else Inr (sch, netloc, url4, qry, frag))"

definition parse_urlsplit ::
  "(string \<Rightarrow> bool) \<Rightarrow> string \<Rightarrow> exn + (string \<times> string \<times> string \<times> string \<times> string)" where
  \<comment> \<open>\<open>urllib.parse.urlsplit(url)\<close>: leading control characters and spaces are
      stripped, tab, CR and LF are removed everywhere, and the scheme is split off.\<close>
  "parse_urlsplit chk url =
     (let url0 = filter (\<lambda>c. c \<notin> set [CHR 0x09, CHR 0x0D, CHR 0x0A])
                   (dropWhile (\<lambda>c. (of_char c :: nat) \<le> 32) url);
          i = py_find url0 (CHR '':'') 0;
          found = (i > 0 \<and> is_ascii (hd url0) \<and> is_alpha (hd url0) \<and>
                   list_all (\<lambda>c. c \<in> set scheme_chars) (take (nat i) url0))
      in if found then urlsplit_rest chk (py_lower (take (nat i) url0)) (drop (nat i + 1) url0)
         else urlsplit_rest chk '''' url0)"

definition splitparams :: "string \<Rightarrow> string \<times> string" where
  \<comment> \<open>\<open>_splitparams(url)\<close>\<close>
  "splitparams url =
     (let i = (if CHR ''/'' \<in> set url
               then py_find url (CHR '';'') (nat (py_rfind url (CHR ''/'')))
               else py_find url (CHR '';'') 0)
      in if i < 0 then (url, '''') else (take (nat i) url, drop (nat i + 1) url))"

definition parse_urlparse ::
  "(string \<Rightarrow> bool) \<Rightarrow> string \<Rightarrow>
     exn + (string \<times> string \<times> string \<times> string \<times> string \<times> string)" where
  \<comment> \<open>\<open>urllib.parse.urlparse(url)\<close>\<close>
  "parse_urlparse chk url =
     (case parse_urlsplit chk url of
        Inl e \<Rightarrow> Inl e
      | Inr (sch, netloc, u, qry, frag) \<Rightarrow>
          if sch \<in> set uses_params \<and> CHR '';'' \<in> set u
          then Inr (sch, netloc, fst (splitparams u), snd (splitparams u), qry, frag)
          else Inr (sch, netloc, u, '''', qry, frag))"

definition parse_urlunsplit :: "string \<times> string \<times> string \<times> string \<times> string \<Rightarrow> string" where
  \<comment> \<open>\<open>urllib.parse.urlunsplit\<close>\<close>
  "parse_urlunsplit parts =
     (case parts of (sch, netloc, url, qry, frag) \<Rightarrow>
        (let url1 = (if netloc \<noteq> [] \<or> (sch \<noteq> [] \<and> sch \<in> set uses_netloc) \<or> take 2 url = ''//''
                     then ''//'' @ netloc @ (if url \<noteq> [] \<and> take 1 url \<noteq> ''/'' then ''/'' @ url else url)
                     else url);
             url2 = (if sch \<noteq> [] then sch @ '':'' @ url1 else url1);
             url3 = (if qry \<noteq> [] then url2 @ ''?'' @ qry else url2)
         in if frag \<noteq> [] then url3 @ ''#'' @ frag else url3))"

definition parse_urlunparse ::
  "string \<times> string \<times> string \<times> string \<times> string \<times> string \<Rightarrow> string" where
  \<comment> \<open>\<open>urllib.parse.urlunparse\<close>\<close>
  "parse_urlunparse parts =
     (case parts of (sch, netloc, url, params, qry, frag) \<Rightarrow>
        parse_urlunsplit (sch, netloc, (if params \<noteq> [] then url @ '';'' @ params else url), qry, frag))"

definition posix_join :: "string \<Rightarrow> string \<Rightarrow> string" where
  \<comment> \<open>\<open>posixpath.join(a, b)\<close>\<close>
  "posix_join a b =
     (if startswith b ''/'' then b
      else if a = [] \<or> last a = CHR ''/'' then a @ b
      else a @ ''/'' @ b)"

definition posix_normpath_step :: "nat \<Rightarrow> string list \<Rightarrow> string \<Rightarrow> string list" where
  \<comment> \<open>The body of the loop of \<open>posixpath.normpath\<close> over the components.\<close>
  "posix_normpath_step initial_slashes new_comps part =
     (if part = '''' \<or> part = ''.'' then new_comps
      else if part \<noteq> ''..'' \<or> (initial_slashes = 0 \<and> new_comps = []) \<or>
              (new_comps \<noteq> [] \<and> last new_comps = ''..'')
      then new_comps @ [part]
      else if new_comps \<noteq> [] then butlast new_comps
      else new_comps)"

definition posix_normpath :: "string \<Rightarrow> string" where
  \<comment> \<open>\<open>posixpath.normpath(p)\<close>\<close>
  "posix_normpath p =
     (if p = [] then ''.''
      else let initial_slashes =
                 (if startswith p ''/''
                  then (if startswith p ''//'' \<and> \<not> startswith p ''///'' then 2 else 1)
                  else (0::nat));
               comps = foldl (posix_normpath_step initial_slashes) [] (py_split (CHR ''/'') p);
               res = replicate initial_slashes (CHR ''/'') @ py_join ''/'' comps
           in if res = [] then ''.'' else res)"

definition nt_sep :: char where
  \<comment> \<open>\<open>ntpath.sep\<close>, the backslash\<close>
  "nt_sep = CHR 0x5C"

definition nt_seps :: string where
  \<comment> \<open>The separators that \<open>ntpath.join\<close> knows: backslash and slash.\<close>
  "nt_seps = [CHR 0x5C, CHR ''/'']"

definition unc_prefix :: string where
  \<comment> \<open>The UNC prefix of \<open>ntpath.splitdrive\<close>: two backslashes, \<open>?\<close>, a backslash,
      \<open>UNC\<close> and a backslash.\<close>
  "unc_prefix = [CHR 0x5C, CHR 0x5C, CHR ''?'', CHR 0x5C, CHR ''U'', CHR ''N'', CHR ''C'', CHR 0x5C]"

definition upper_ascii :: "string \<Rightarrow> string" where
  \<comment> \<open>\<open>str.upper\<close> on the letters a-z. \<open>splitdrive\<close> compares the result with
      \<open>unc_prefix\<close> only, and no character outside ASCII has a character of that
      prefix in its upper case.\<close>
  "upper_ascii s =
     map (\<lambda>c. case map_of (zip ascii_lowercase ascii_uppercase) c of Some u \<Rightarrow> u | None \<Rightarrow> c) s"

definition nt_splitdrive :: "string \<Rightarrow> string \<times> string" where
  \<comment> \<open>\<open>ntpath.splitdrive(p)\<close>: the drive or UNC share, and the rest.\<close>
  "nt_splitdrive p =
     (if length p \<ge> 2
      then (let normp = py_replace (CHR ''/'') [nt_sep] p
            in if take 2 normp = [nt_sep, nt_sep]
               then (let start = (if upper_ascii (take 8 normp) = unc_prefix then 8 else 2);
                         index = py_find normp nt_sep start
                     in if index = - 1 then (p, [])
                        else (let index2 = py_find normp nt_sep (nat index + 1)
                              in if index2 = - 1 then (p, [])
                                 else (take (nat index2) p, drop (nat index2) p)))
               else if take 1 (drop 1 normp) = '':'' then (take 2 p, drop 2 p)
               else ([], p))
      else ([], p))"

definition nt_join :: "string \<Rightarrow> string \<Rightarrow> string" where
  \<comment> \<open>\<open>ntpath.join(a, b)\<close>: the loop over the paths runs once, for \<open>b\<close>.\<close>
  "nt_join a b =
     (case (nt_splitdrive a, nt_splitdrive b) of
        ((result_drive, result_path), (p_drive, p_path)) \<Rightarrow>
          (let joined =
                 (if p_path \<noteq> [] \<and> hd p_path \<in> set nt_seps
                  then ((if p_drive \<noteq> [] \<or> result_drive = [] then p_drive else result_drive),
                        p_path)
                  else if p_drive \<noteq> [] \<and> p_drive \<noteq> result_drive \<and>
                          py_lower p_drive \<noteq> py_lower result_drive
                  then (p_drive, p_path)
                  else ((if p_drive \<noteq> [] \<and> p_drive \<noteq> result_drive then p_drive
                         else result_drive),
                        (if result_path \<noteq> [] \<and> last result_path \<notin> set nt_seps
                         then result_path @ [nt_sep] else result_path) @ p_path));
               rd = fst joined;
               rp = snd joined
           in if rp \<noteq> [] \<and> hd rp \<notin> set nt_seps \<and> rd \<noteq> [] \<and> last rd \<noteq> CHR '':''
              then rd @ [nt_sep] @ rp
              else rd @ rp))"

definition nt_normpath_step :: "string \<Rightarrow> string list \<Rightarrow> string \<Rightarrow> string list" where
  \<comment> \<open>The body of the loop of \<open>ntpath.normpath\<close>: \<open>comps\<close> holds the components
      before the index \<open>i\<close>, \<open>part\<close> is \<open>comps[i]\<close>.\<close>
  "nt_normpath_step prefix comps part =
     (if part = '''' \<or> part = ''.'' then comps
      else if part = ''..''
      then (if comps \<noteq> [] \<and> last comps \<noteq> ''..'' then butlast comps
            else if comps = [] \<and> prefix \<noteq> [] \<and> last prefix = nt_sep then comps
            else comps @ [part])
      else comps @ [part])"

definition nt_normpath :: "string \<Rightarrow> string" where
  \<comment> \<open>\<open>ntpath.normpath(p)\<close> as \<open>ntpath.py\<close> defines it.\<close>
  "nt_normpath p =
     (let p1 = py_replace (CHR ''/'') [nt_sep] p;
          prefix0 = fst (nt_splitdrive p1);
          rest0 = snd (nt_splitdrive p1);
          prefix = (if startswith rest0 [nt_sep] then prefix0 @ [nt_sep] else prefix0);
          rest = (if startswith rest0 [nt_sep] then dropWhile (\<lambda>c. c = nt_sep) rest0 else rest0);
          comps = foldl (nt_normpath_step prefix) [] (py_split nt_sep rest)
      in prefix @ py_join [nt_sep] (if prefix = [] \<and> comps = [] then [''.''] else comps))"

definition os_path_join :: "bool \<Rightarrow> string \<Rightarrow> string \<Rightarrow> string" where
  \<comment> \<open>\<open>os.path.join\<close>: \<open>os.path\<close> is \<open>ntpath\<close> on Windows and \<open>posixpath\<close> elsewhere.\<close>
  "os_path_join is_win a b = (if is_win then nt_join a b else posix_join a b)"

definition os_path_normpath :: "bool \<Rightarrow> string \<Rightarrow> string" where
  \<comment> \<open>\<open>os.path.normpath\<close>\<close>
  "os_path_normpath is_win p = (if is_win then nt_normpath p else posix_normpath p)"

section \<open>The Uri class\<close>

text \<open>
  The five attributes are annotated \<open>str\<close>, and \<open>where\<close> stores \<open>None\<close> in them on
  request, so each is a \<open>string option\<close>. \<open>IS_WIN\<close> is imported from the package and
  is a parameter \<open>is_win\<close> of every function that reads it.
\<close>

record Uri =
  scheme :: "string option"
  authority :: "string option"
  path :: "string option"
  query :: "string option"
  fragment :: "string option"

definition Uri_init ::
  "string option \<Rightarrow> string option \<Rightarrow> string option \<Rightarrow> string option \<Rightarrow> string option \<Rightarrow> exn + Uri" where
  \<comment> \<open>The generated constructor followed by \<open>__attrs_post_init__\<close>.\<close>
  "Uri_init sch auth pth qry frag =
     (case sch of
        None \<Rightarrow> Inl (ValueError Must_have_scheme)
      | Some s \<Rightarrow>
          if \<not> SCHEME_match s then Inl (ValueError Invalid_scheme)
          else if (case (auth, pth) of
                     (Some a, Some p) \<Rightarrow> a \<noteq> [] \<and> p \<noteq> [] \<and> \<not> startswith p ''/''
                   | _ \<Rightarrow> False)
          then Inl (ValueError Authority_needs_slash)
          else if (case pth of Some p \<Rightarrow> p \<noteq> [] \<and> startswith p ''//'' \<and> \<not> truthy auth
                   | None \<Rightarrow> False)
          then Inl (ValueError Double_slash_no_authority)
          else Inr \<lparr>scheme = sch, authority = auth, path = pth, query = qry, fragment = frag\<rparr>)"

definition create ::
  "string option \<Rightarrow> string option \<Rightarrow> string option \<Rightarrow> string option \<Rightarrow> string option \<Rightarrow> exn + Uri" where
  \<comment> \<open>\<open>Uri.create(scheme=, authority=, path=, query=, fragment=)\<close>; an argument left
      out is \<open>Some ''''\<close>. \<open>None.startswith\<close> raises AttributeError.\<close>
  "create sch auth pth qry frag =
     (if sch \<in> {Some ''http'', Some ''https'', Some ''file''}
      then (case pth of
              None \<Rightarrow> Inl AttributeError
            | Some p \<Rightarrow>
                if \<not> startswith p ''/''
                then Uri_init sch auth (Some (''/'' @ p)) qry frag
                else Uri_init sch auth pth qry frag)
      else Uri_init sch auth pth qry frag)"

definition replace_chars :: "string \<Rightarrow> string" where
  \<comment> \<open>\<open>_replace_chars\<close>\<close>
  "replace_chars segment = py_replace (CHR ''?'') ''%3F'' (py_replace (CHR ''#'') ''%23'' segment)"

definition rc_char :: "char \<Rightarrow> string" where
  \<comment> \<open>What \<open>_replace_chars\<close> does to one character.\<close>
  "rc_char c = (if c = CHR ''#'' then ''%23'' else if c = CHR ''?'' then ''%3F'' else [c])"

definition normalize_path :: "bool \<Rightarrow> string \<Rightarrow> string" where
  \<comment> \<open>\<open>_normalize_path\<close>\<close>
  "normalize_path is_win pth =
     (let p = (if is_win then py_replace (CHR 0x5C) ''/'' pth else pth)
      in case RE_DRIVE_LETTER_PATH_match p of
           Some (g1, g2, e) \<Rightarrow> g1 @ py_lower g2 @ drop e p
         | None \<Rightarrow> p)"

definition urlparse ::
  "(string \<Rightarrow> bool) \<Rightarrow> string \<Rightarrow>
     (exn + (string \<times> string \<times> string \<times> string \<times> string \<times> string)) option" where
  \<comment> \<open>\<open>pygls.uris.urlparse\<close>: parse, then decode every part.\<close>
  "urlparse chk uri =
     (case parse_urlparse chk uri of
        Inl e \<Rightarrow> Some (Inl e)
      | Inr (sch, netloc, pth, params, qry, frag) \<Rightarrow>
          (case (parse_unquote sch, parse_unquote netloc, parse_unquote pth,
                 parse_unquote params, parse_unquote qry, parse_unquote frag) of
             (Some s, Some n, Some p, Some pa, Some q, Some f) \<Rightarrow> Some (Inr (s, n, p, pa, q, f))
           | _ \<Rightarrow> None))"

definition urlunparse ::
  "string \<times> string \<times> string \<times> string \<times> string \<times> string \<Rightarrow> string" where
  \<comment> \<open>\<open>pygls.uris.urlunparse\<close>\<close>
  "urlunparse parts =
     (case parts of (sch, netloc, pth, params, qry, frag) \<Rightarrow>
        (let quoted_path =
               (if RE_DRIVE_LETTER_PATH_match pth \<noteq> None
                then take 3 pth @ parse_quote (drop 3 pth)
                else parse_quote pth)
         in parse_urlunparse (parse_quote sch, parse_quote netloc, quoted_path,
                              parse_quote params, parse_quote qry, parse_quote frag)))"

definition parse ::
  "(string \<Rightarrow> bool) \<Rightarrow> string \<Rightarrow> (exn + Uri) option" where
  \<comment> \<open>\<open>Uri.parse\<close>\<close>
  "parse chk uri =
     (case urlparse chk uri of
        None \<Rightarrow> None
      | Some (Inl e) \<Rightarrow> Some (Inl e)
      | Some (Inr (sch, auth, pth, params, qry, frag)) \<Rightarrow>
          Some (create (Some sch) (Some auth) (Some pth) (Some qry) (Some frag)))"

definition for_file :: "bool \<Rightarrow> string \<Rightarrow> exn + Uri" where
  \<comment> \<open>\<open>Uri.for_file\<close>\<close>
  "for_file is_win filepath =
     (let fp = (if is_win then py_replace (CHR 0x5C) ''/'' filepath else filepath)
      in if startswith fp ''//''
         then (let parts = py_split (CHR ''/'') (drop 2 fp)
               in create (Some ''file'') (Some (hd parts)) (Some (py_join ''/'' (tl parts)))
                    (Some '''') (Some ''''))
         else create (Some ''file'') (Some '''') (Some fp) (Some '''') (Some ''''))"

definition fs_path :: "bool \<Rightarrow> Uri \<Rightarrow> string option" where
  \<comment> \<open>The property \<open>Uri.fs_path\<close>; falling off the end returns \<open>None\<close>.\<close>
  "fs_path is_win u =
     (if truthy (path u)
      then (let p0 = normalize_path is_win (the (path u));
                p1 = (if truthy (authority u) \<and> length p0 > 1
                      then ''//'' @ the (authority u) @ p0
                      else if RE_DRIVE_LETTER_PATH_match p0 \<noteq> None then drop 1 p0
                      else p0);
                p2 = (if is_win then py_replace (CHR 0x5C) ''/'' p1 else p1)
            in Some p2)
      else None)"

definition uri_keys :: "string set" where
  "uri_keys = {''scheme'', ''authority'', ''path'', ''query'', ''fragment''}"

definition attrs :: "Uri \<Rightarrow> (string \<rightharpoonup> string option)" where
  \<comment> \<open>\<open>getattr(self, k)\<close> as a dictionary of the attributes.\<close>
  "attrs u = [''scheme'' \<mapsto> scheme u, ''authority'' \<mapsto> authority u, ''path'' \<mapsto> path u,
              ''query'' \<mapsto> query u, ''fragment'' \<mapsto> fragment u]"

definition kwarg :: "(string \<rightharpoonup> string option) \<Rightarrow> string \<Rightarrow> string option" where
  \<comment> \<open>The value \<open>create\<close> receives for a keyword: the one passed, or the default \<open>""\<close>.\<close>
  "kwarg d k = (case d k of None \<Rightarrow> Some '''' | Some v \<Rightarrow> v)"

definition create_kwargs :: "(string \<rightharpoonup> string option) \<Rightarrow> exn + Uri" where
  \<comment> \<open>\<open>Uri.create(**d)\<close>: a keyword that \<open>create\<close> does not have is a TypeError.\<close>
  "create_kwargs d =
     (if dom d \<subseteq> uri_keys
      then create (kwarg d ''scheme'') (kwarg d ''authority'') (kwarg d ''path'')
             (kwarg d ''query'') (kwarg d ''fragment'')
      else Inl TypeError)"

definition where_uri :: "Uri \<Rightarrow> (string \<rightharpoonup> string option) \<Rightarrow> exn + Uri" where
  \<comment> \<open>\<open>Uri.where(**kwargs)\<close>: \<open>kwargs\<close> maps a keyword to the value passed, which may
      be \<open>None\<close>.\<close>
  "where_uri u kwargs =
     (let valid_keys = uri_keys \<inter> dom kwargs;
          current = attrs u |` uri_keys;
          replacements = kwargs |` valid_keys
      in create_kwargs (current ++ replacements))"

definition join :: "bool \<Rightarrow> Uri \<Rightarrow> string \<Rightarrow> exn + Uri" where
  \<comment> \<open>\<open>Uri.join\<close>\<close>
  "join is_win u seg =
     (if \<not> truthy (path u) then Inl (ValueError No_path)
      else where_uri u
             [''path'' \<mapsto> Some (os_path_normpath is_win (os_path_join is_win (the (path u)) seg))])"

definition encode_authority :: "(string \<Rightarrow> string) \<Rightarrow> string \<Rightarrow> string" where
  \<comment> \<open>The block of \<open>as_string\<close> that runs when \<open>self.authority\<close> is true; the result
      is the new value of the variable \<open>authority\<close>.\<close>
  "encode_authority encoder auth0 =
     (let parts = py_split (CHR ''@'') auth0;
          usercred0 = hd parts;
          auth = tl parts;
          usercred =
            (if length auth > 0
             then (let ucs = py_split (CHR '':'') usercred0;
                       user = butlast ucs;
                       cred = last ucs
                   in if length user > 0
                      then Some (encoder (py_join '':'' user) @ '':'' @ encoder cred)
                      else Some (encoder usercred0))
             else None);
          auth1 = py_lower (if length auth > 0 then py_join ''@'' auth else auth0);
          hp = py_split (CHR '':'') auth1;
          auth2 = (if length (butlast hp) > 0
                   then encoder (py_join '':'' (butlast hp)) @ '':'' @ last hp
                   else encoder auth1)
      in if truthy usercred then the usercred @ ''@'' @ auth2 else auth2)"

definition as_string :: "bool \<Rightarrow> bool \<Rightarrow> Uri \<Rightarrow> string" where
  \<comment> \<open>\<open>Uri.as_string(encode)\<close>. \<open>f"{self.scheme}:"\<close> prints \<open>None\<close> as the text None.\<close>
  "as_string is_win encode u =
     (let encoder = (if encode then parse_quote else replace_chars);
          auth = (if truthy (authority u) then Some (encode_authority encoder (the (authority u)))
                  else authority u);
          scheme_separator = (if truthy auth \<or> scheme u = Some ''file'' then ''//'' else '''');
          pth = (if truthy (path u) then Some (encoder (normalize_path is_win (the (path u))))
                 else path u);
          qry = (if truthy (query u) then Some (encoder (the (query u))) else query u);
          frag = (if truthy (fragment u) then Some (encoder (the (fragment u))) else fragment u)
      in (case scheme u of None \<Rightarrow> ''None'' | Some s \<Rightarrow> s) @ '':'' @
         scheme_separator @
         (if truthy auth then the auth else '''') @
         (if truthy pth then the pth else '''') @
         (if truthy qry then ''?'' @ the qry else '''') @
         (if truthy frag then ''#'' @ the frag else ''''))"

section \<open>The legacy functions\<close>

definition normalize_win_path :: "bool \<Rightarrow> string \<Rightarrow> exn + (string \<times> string)" where
  \<comment> \<open>\<open>_normalize_win_path\<close>: the pair \<open>(path, netloc)\<close>. \<open>str.index\<close> raises where
      the source tests for -1.\<close>
  "normalize_win_path is_win pth =
     (let p0 = (if is_win then py_replace (CHR 0x5C) ''/'' pth else pth);
          split_result =
            (if take 2 p0 = ''//''
             then (case py_index p0 (CHR ''/'') 2 of
                     Inl e \<Rightarrow> Inl e
                   | Inr idx \<Rightarrow>
                       if idx = - 1 then Inr (p0, drop 2 p0)
                       else Inr (drop (nat idx) p0, take (nat idx - 2) (drop 2 p0)))
             else Inr (p0, ''''))
      in case split_result of
           Inl e \<Rightarrow> Inl e
         | Inr (p1, netloc) \<Rightarrow>
             (let p2 = (if \<not> startswith p1 ''/'' then ''/'' @ p1 else p1)
              in if RE_DRIVE_LETTER_PATH_match p2 \<noteq> None
                 then (case (py_getitem p2 0, py_getitem p2 1) of
                         (Inr c0, Inr c1) \<Rightarrow> Inr (c0 @ py_lower c1 @ drop 2 p2, netloc)
                       | (Inl e, _) \<Rightarrow> Inl e
                       | (_, Inl e) \<Rightarrow> Inl e)
                 else Inr (p2, netloc)))"

definition from_fs_path :: "bool \<Rightarrow> string \<Rightarrow> exn + string option" where
  \<comment> \<open>\<open>from_fs_path\<close>: AttributeError and TypeError are caught and give \<open>None\<close>; any
      other exception leaves the function.\<close>
  "from_fs_path is_win pth =
     (case normalize_win_path is_win pth of
        Inl AttributeError \<Rightarrow> Inr None
      | Inl TypeError \<Rightarrow> Inr None
      | Inl e \<Rightarrow> Inl e
      | Inr (p, netloc) \<Rightarrow> Inr (Some (urlunparse (''file'', netloc, p, '''', '''', ''''))))"

definition to_fs_path ::
  "bool \<Rightarrow> (string \<Rightarrow> bool) \<Rightarrow> string \<Rightarrow> (exn + string option) option" where
  \<comment> \<open>\<open>to_fs_path\<close>: only TypeError is caught.\<close>
  "to_fs_path is_win chk uri =
     (case urlparse chk uri of
        None \<Rightarrow> None
      | Some parsed \<Rightarrow>
          (let body =
                 (case parsed of
                    Inl e \<Rightarrow> Inl e
                  | Inr (sch, netloc, pth, params, qry, frag) \<Rightarrow>
                      (let r = (if netloc \<noteq> [] \<and> pth \<noteq> [] \<and> sch = ''file''
                                then Inr (''//'' @ netloc @ pth)
                                else if RE_DRIVE_LETTER_PATH_match pth \<noteq> None
                                then (case py_getitem pth 1 of
                                        Inl e \<Rightarrow> Inl e
                                      | Inr c1 \<Rightarrow> Inr (py_lower c1 @ drop 2 pth))
                                else Inr pth)
                       in case r of
                            Inl e \<Rightarrow> Inl e
                          | Inr v \<Rightarrow>
                              Inr (if is_win then py_replace (CHR ''/'') [CHR 0x5C] v else v)))
           in Some (case body of
                      Inl TypeError \<Rightarrow> Inr None
                    | Inl e \<Rightarrow> Inl e
                    | Inr v \<Rightarrow> Inr (Some v))))"

definition uri_scheme :: "(string \<Rightarrow> bool) \<Rightarrow> string \<Rightarrow> (exn + string option) option" where
  \<comment> \<open>\<open>uri_scheme\<close>: TypeError and IndexError are caught.\<close>
  "uri_scheme chk uri =
     (case urlparse chk uri of
        None \<Rightarrow> None
      | Some (Inl TypeError) \<Rightarrow> Some (Inr None)
      | Some (Inl IndexError) \<Rightarrow> Some (Inr None)
      | Some (Inl e) \<Rightarrow> Some (Inl e)
      | Some (Inr (sch, netloc, pth, params, qry, frag)) \<Rightarrow> Some (Inr (Some sch)))"

section \<open>Evaluation\<close>

lemmas char_class_defs =
  is_alpha_def is_ascii_def ascii_letters_def ascii_lowercase_def ascii_uppercase_def
  ascii_digits_def scheme_chars_def

lemmas eval_defs =
  create_def Uri_init_def SCHEME_match_def char_class_defs startswith_def truthy_def
  fs_path_def normalize_path_def RE_DRIVE_LETTER_PATH_match_def py_lower_def lower_char_def
  py_replace_def Let_def

lemmas urlsplit_eval =
  parse_urlsplit_def urlsplit_rest_def py_find_def splitnetloc_def partition_sep_def char_class_defs
  py_lower_def lower_char_def Let_def

lemma urlsplit_file_upper:
  "parse_urlsplit chk ''file:///C:/Users/x'' = Inr (''file'', '''', ''/C:/Users/x'', '''', '''')"
  by (simp add: urlsplit_eval)

lemma urlsplit_file_lower:
  "parse_urlsplit chk ''file:///c:/Users/x'' = Inr (''file'', '''', ''/c:/Users/x'', '''', '''')"
  by (simp add: urlsplit_eval)

lemma urlsplit_bad_ipv6:
  "parse_urlsplit chk ''http://[::1'' = Inl (ValueError Invalid_IPv6_URL)"
  by (simp add: urlsplit_eval)

lemma urlparse_file_upper:
  "urlparse chk ''file:///C:/Users/x'' =
     Some (Inr (''file'', '''', ''/C:/Users/x'', '''', '''', ''''))"
  by (simp add: urlparse_def parse_urlparse_def urlsplit_file_upper parse_unquote_def
      uses_params_def)

lemma urlparse_file_lower:
  "urlparse chk ''file:///c:/Users/x'' =
     Some (Inr (''file'', '''', ''/c:/Users/x'', '''', '''', ''''))"
  by (simp add: urlparse_def parse_urlparse_def urlsplit_file_lower parse_unquote_def
      uses_params_def)

lemma urlparse_bad_ipv6:
  "urlparse chk ''http://[::1'' = Some (Inl (ValueError Invalid_IPv6_URL))"
  by (simp add: urlparse_def parse_urlparse_def urlsplit_bad_ipv6)

lemma SCHEME_match_Nil: "\<not> SCHEME_match []"
  by (simp add: SCHEME_match_def)

section \<open>Construction\<close>

text \<open>
  C3. \<open>create(authority="host", path="no-leading-slash")\<close> raises and
  \<open>create(authority="host", path="/ok")\<close> returns a Uri. As amended: the scheme left
  at its default \<open>""\<close> is refused before the path is looked at, so both calls raise
  ("Invalid scheme"). With a scheme \<open>s\<close> that the scheme grammar accepts,
  \<open>create(scheme=s, authority="host", path="/ok")\<close> returns the Uri of these
  components, and \<open>create(scheme=s, authority="host", path="no-leading-slash")\<close>
  raises the slash error unless \<open>s\<close> is one of http, https, file (for which the slash
  is prepended instead).
\<close>

theorem create_authority_path_slash:
  assumes "SCHEME_match s"
  shows "create (Some s) (Some ''host'') (Some ''/ok'') (Some '''') (Some '''') =
           Inr \<lparr>scheme = Some s, authority = Some ''host'', path = Some ''/ok'',
                query = Some '''', fragment = Some ''''\<rparr> \<and>
         (s \<notin> {''http'', ''https'', ''file''} \<longrightarrow>
            create (Some s) (Some ''host'') (Some ''no-leading-slash'') (Some '''') (Some '''') =
              Inl (ValueError Authority_needs_slash)) \<and>
         create (Some '''') (Some ''host'') (Some ''no-leading-slash'') (Some '''') (Some '''') =
           Inl (ValueError Invalid_scheme)"
  using assms by (simp add: create_def Uri_init_def startswith_def truthy_def SCHEME_match_Nil)

theorem create_authority_path_slash_witness:
  "SCHEME_match ''x'' \<and>
   create (Some ''x'') (Some ''host'') (Some ''/ok'') (Some '''') (Some '''') =
     Inr \<lparr>scheme = Some ''x'', authority = Some ''host'', path = Some ''/ok'',
          query = Some '''', fragment = Some ''''\<rparr> \<and>
   create (Some ''x'') (Some ''host'') (Some ''no-leading-slash'') (Some '''') (Some '''') =
     Inl (ValueError Authority_needs_slash)"
proof -
  have m: "SCHEME_match ''x''"
    by (simp add: SCHEME_match_def char_class_defs)
  from create_authority_path_slash [OF m] m show ?thesis by simp
qed

theorem create_default_scheme_counterexample:
  "create (Some '''') (Some ''host'') (Some ''/ok'') (Some '''') (Some '''') =
     Inl (ValueError Invalid_scheme)"
  by (simp add: create_def Uri_init_def SCHEME_match_Nil)

text \<open>
  C10. For a scheme among http, https and file, \<open>create\<close> with every other component
  at its default puts the slash in front of the empty path: the Uri has \<open>path == "/"\<close>,
  and its \<open>fs_path\<close> is \<open>"/"\<close> on either platform, not \<open>None\<close>.
\<close>

theorem create_empty_path_coerced:
  assumes "sch \<in> {''http'', ''https'', ''file''}"
  shows "create (Some sch) (Some '''') (Some '''') (Some '''') (Some '''') =
           Inr \<lparr>scheme = Some sch, authority = Some '''', path = Some ''/'',
                query = Some '''', fragment = Some ''''\<rparr> \<and>
         fs_path is_win \<lparr>scheme = Some sch, authority = Some '''', path = Some ''/'',
                          query = Some '''', fragment = Some ''''\<rparr> = Some ''/''"
proof -
  have m: "SCHEME_match sch"
    using assms by (auto simp: SCHEME_match_def char_class_defs)
  have c: "create (Some sch) (Some '''') (Some '''') (Some '''') (Some '''') =
           Inr \<lparr>scheme = Some sch, authority = Some '''', path = Some ''/'',
                query = Some '''', fragment = Some ''''\<rparr>"
    using assms m by (auto simp: create_def Uri_init_def startswith_def truthy_def)
  have f: "fs_path is_win \<lparr>scheme = Some sch, authority = Some '''', path = Some ''/'',
                          query = Some '''', fragment = Some ''''\<rparr> = Some ''/''"
    by (simp add: fs_path_def truthy_def normalize_path_def RE_DRIVE_LETTER_PATH_match_def
        startswith_def py_replace_def)
  from c f show ?thesis by simp
qed

theorem create_empty_path_coerced_witness:
  "create (Some ''file'') (Some '''') (Some '''') (Some '''') (Some '''') =
     Inr \<lparr>scheme = Some ''file'', authority = Some '''', path = Some ''/'',
          query = Some '''', fragment = Some ''''\<rparr> \<and>
   fs_path False \<lparr>scheme = Some ''file'', authority = Some '''', path = Some ''/'',
                  query = Some '''', fragment = Some ''''\<rparr> = Some ''/'' \<and>
   fs_path True \<lparr>scheme = Some ''file'', authority = Some '''', path = Some ''/'',
                 query = Some '''', fragment = Some ''''\<rparr> = Some ''/''"
  using create_empty_path_coerced [of "''file''" False]
    create_empty_path_coerced [of "''file''" True]
  by simp

section \<open>Filesystem paths\<close>

text \<open>
  C7. \<open>for_file("//server/share/file.txt")\<close> is the Uri with scheme \<open>file\<close>, authority
  \<open>server\<close> and path \<open>/share/file.txt\<close>, and the \<open>fs_path\<close> of that Uri is the UNC
  path \<open>//server/share/file.txt\<close>, on either platform.
\<close>

theorem for_file_unc:
  "for_file is_win ''//server/share/file.txt'' =
     Inr \<lparr>scheme = Some ''file'', authority = Some ''server'', path = Some ''/share/file.txt'',
          query = Some '''', fragment = Some ''''\<rparr> \<and>
   fs_path is_win \<lparr>scheme = Some ''file'', authority = Some ''server'',
                    path = Some ''/share/file.txt'', query = Some '''', fragment = Some ''''\<rparr> =
     Some ''//server/share/file.txt''"
  by (simp add: for_file_def eval_defs)

text \<open>
  C8. Parsing \<open>file:///C:/Users/x\<close> and \<open>file:///c:/Users/x\<close> gives two Uris (their
  paths keep the case they were written in) whose \<open>fs_path\<close> is the same string
  \<open>c:/Users/x\<close>, the drive letter in lower case, on either platform.
\<close>

theorem drive_letter_casing:
  "parse chk ''file:///C:/Users/x'' =
     Some (Inr \<lparr>scheme = Some ''file'', authority = Some '''', path = Some ''/C:/Users/x'',
                query = Some '''', fragment = Some ''''\<rparr>) \<and>
   parse chk ''file:///c:/Users/x'' =
     Some (Inr \<lparr>scheme = Some ''file'', authority = Some '''', path = Some ''/c:/Users/x'',
                query = Some '''', fragment = Some ''''\<rparr>) \<and>
   fs_path is_win \<lparr>scheme = Some ''file'', authority = Some '''', path = Some ''/C:/Users/x'',
                    query = Some '''', fragment = Some ''''\<rparr> = Some ''c:/Users/x'' \<and>
   fs_path is_win \<lparr>scheme = Some ''file'', authority = Some '''', path = Some ''/c:/Users/x'',
                    query = Some '''', fragment = Some ''''\<rparr> = Some ''c:/Users/x''"
  by (simp add: parse_def urlparse_file_upper urlparse_file_lower eval_defs)

text \<open>
  C2. On a Windows platform the last step of \<open>fs_path\<close> should turn every forward
  slash into a backslash. The property replaces backslashes by forward slashes
  instead, which the path normalisation has already done: for the Uri of
  \<open>file:///c:/Users/x\<close> it returns \<open>c:/Users/x\<close>, where the function \<open>to_fs_path\<close>
  returns \<open>c:\Users\x\<close> for the same URI.
\<close>

theorem fs_path_windows_separator:
  "fs_path True \<lparr>scheme = Some ''file'', authority = Some '''', path = Some ''/c:/Users/x'',
                 query = Some '''', fragment = Some ''''\<rparr> = Some ''c:/Users/x'' \<and>
   to_fs_path True chk ''file:///c:/Users/x'' =
     Some (Inr (Some (''c:'' @ [CHR 0x5C] @ ''Users'' @ [CHR 0x5C] @ ''x'')))"
  by (simp add: to_fs_path_def py_getitem_def urlparse_file_lower eval_defs)

section \<open>The legacy functions and exceptions\<close>

text \<open>
  C4. The legacy functions should return \<open>None\<close> on malformed input and never raise.
  \<open>from_fs_path("//server")\<close> raises ValueError: \<open>str.index\<close> finds no third slash,
  and only AttributeError and TypeError are caught. \<open>to_fs_path\<close> and \<open>uri_scheme\<close>
  let the ValueError of the URL parser through as well.
\<close>

theorem legacy_functions_raise:
  "from_fs_path is_win ''//server'' = Inl (ValueError Substring_not_found) \<and>
   to_fs_path is_win chk ''http://[::1'' = Some (Inl (ValueError Invalid_IPv6_URL)) \<and>
   uri_scheme chk ''http://[::1'' = Some (Inl (ValueError Invalid_IPv6_URL))"
  by (simp add: from_fs_path_def normalize_win_path_def py_index_def py_find_def py_replace_def
      to_fs_path_def uri_scheme_def urlparse_bad_ipv6)

section \<open>Lemmas on keyword arguments and paths\<close>

lemma merged_dom: "dom ((m |` A) ++ (kw |` (A \<inter> dom kw))) \<subseteq> A"
  by auto

lemma merged_lookup:
  "k \<in> A \<Longrightarrow>
   ((m |` A) ++ (kw |` (A \<inter> dom kw))) k = (case kw k of None \<Rightarrow> m k | Some v \<Rightarrow> Some v)"
  by (auto simp: map_add_def restrict_map_def dom_def split: option.splits)

lemma where_uri_create:
  "where_uri u kw =
     create (case kw ''scheme'' of None \<Rightarrow> scheme u | Some v \<Rightarrow> v)
            (case kw ''authority'' of None \<Rightarrow> authority u | Some v \<Rightarrow> v)
            (case kw ''path'' of None \<Rightarrow> path u | Some v \<Rightarrow> v)
            (case kw ''query'' of None \<Rightarrow> query u | Some v \<Rightarrow> v)
            (case kw ''fragment'' of None \<Rightarrow> fragment u | Some v \<Rightarrow> v)"
proof -
  let ?d = "(attrs u |` uri_keys) ++ (kw |` (uri_keys \<inter> dom kw))"
  have k: "''scheme'' \<in> uri_keys" "''authority'' \<in> uri_keys" "''path'' \<in> uri_keys"
    "''query'' \<in> uri_keys" "''fragment'' \<in> uri_keys"
    by (simp_all add: uri_keys_def)
  have a: "attrs u ''scheme'' = Some (scheme u)" "attrs u ''authority'' = Some (authority u)"
    "attrs u ''path'' = Some (path u)" "attrs u ''query'' = Some (query u)"
    "attrs u ''fragment'' = Some (fragment u)"
    by (simp_all add: attrs_def)
  have d: "dom ?d \<subseteq> uri_keys"
    by (rule merged_dom)
  have l: "kwarg ?d ''scheme'' = (case kw ''scheme'' of None \<Rightarrow> scheme u | Some v \<Rightarrow> v)"
    "kwarg ?d ''authority'' = (case kw ''authority'' of None \<Rightarrow> authority u | Some v \<Rightarrow> v)"
    "kwarg ?d ''path'' = (case kw ''path'' of None \<Rightarrow> path u | Some v \<Rightarrow> v)"
    "kwarg ?d ''query'' = (case kw ''query'' of None \<Rightarrow> query u | Some v \<Rightarrow> v)"
    "kwarg ?d ''fragment'' = (case kw ''fragment'' of None \<Rightarrow> fragment u | Some v \<Rightarrow> v)"
    unfolding kwarg_def
    by (simp_all only: merged_lookup [OF k(1)] merged_lookup [OF k(2)] merged_lookup [OF k(3)]
        merged_lookup [OF k(4)] merged_lookup [OF k(5)] a split: option.split, simp_all)
  show ?thesis
    unfolding where_uri_def Let_def create_kwargs_def
    using d l by simp
qed

lemma where_uri_unknown_key:
  assumes "k \<notin> uri_keys"
  shows "where_uri u (kw(k \<mapsto> v)) = where_uri u kw"
proof -
  have "k \<noteq> ''scheme''" "k \<noteq> ''authority''" "k \<noteq> ''path''" "k \<noteq> ''query''" "k \<noteq> ''fragment''"
    using assms by (auto simp: uri_keys_def)
  then show ?thesis
    by (simp add: where_uri_create)
qed

lemma create_Inr_fields:
  assumes "create sch auth pth qry frag = Inr r"
  shows "scheme r = sch \<and> authority r = auth \<and> query r = qry \<and> fragment r = frag \<and>
         path r = (if sch \<in> {Some ''http'', Some ''https'', Some ''file''} \<and>
                      \<not> startswith (the pth) ''/''
                   then Some (''/'' @ the pth) else pth)"
  using assms
  by (auto simp: create_def Uri_init_def split: if_splits option.splits)

lemma startswith_slash_iff: "startswith s ''/'' \<longleftrightarrow> (\<exists>t. s = CHR ''/'' # t)"
  by (cases s) (auto simp: startswith_def)

lemma startswith_dslash_iff: "startswith s ''//'' \<longleftrightarrow> (\<exists>t. s = CHR ''/'' # CHR ''/'' # t)"
proof (cases s)
  case Nil
  then show ?thesis by (simp add: startswith_def)
next
  case (Cons a t)
  then show ?thesis by (cases t) (auto simp: startswith_def)
qed

lemma posix_join_relative:
  assumes "p \<noteq> []" "\<not> startswith seg ''/''"
  shows "(startswith (posix_join p seg) ''/'' \<longleftrightarrow> startswith p ''/'') \<and>
         (startswith (posix_join p seg) ''//'' \<longrightarrow> startswith p ''//'')"
proof -
  obtain c r where p: "p = c # r" using assms(1) by (cases p) auto
  show ?thesis
  proof (cases r)
    case Nil
    then show ?thesis
      using assms(2) p by (cases seg) (auto simp: posix_join_def startswith_def)
  next
    case (Cons d r2)
    then show ?thesis
      using p assms(2) by (auto simp: posix_join_def startswith_def)
  qed
qed

lemma posix_step_cases:
  "posix_normpath_step n acc a = acc \<or> posix_normpath_step n acc a = butlast acc \<or>
   (posix_normpath_step n acc a = acc @ [a] \<and> a \<noteq> [])"
  unfolding posix_normpath_step_def by (cases "a = []") simp_all

lemma posix_step_pres:
  assumes "CHR ''/'' \<notin> set a" "\<forall>x \<in> set acc. x \<noteq> [] \<and> CHR ''/'' \<notin> set x"
  shows "\<forall>x \<in> set (posix_normpath_step n acc a). x \<noteq> [] \<and> CHR ''/'' \<notin> set x"
proof -
  have b: "\<forall>x \<in> set (butlast acc). x \<noteq> [] \<and> CHR ''/'' \<notin> set x"
    using assms(2) by (blast dest: in_set_butlastD)
  have c: "a \<noteq> [] \<Longrightarrow> \<forall>x \<in> set (acc @ [a]). x \<noteq> [] \<and> CHR ''/'' \<notin> set x"
    using assms by simp
  from posix_step_cases [of n acc a] show ?thesis
  proof (elim disjE conjE)
    assume "posix_normpath_step n acc a = acc"
    then show ?thesis using assms(2) by (simp only:)
  next
    assume "posix_normpath_step n acc a = butlast acc"
    then show ?thesis using b by (simp only:)
  next
    assume e: "posix_normpath_step n acc a = acc @ [a]" and ne: "a \<noteq> []"
    show ?thesis unfolding e by (rule c [OF ne])
  qed
qed

lemma normpath_comps:
  "\<forall>x \<in> set parts. CHR ''/'' \<notin> set x \<Longrightarrow> \<forall>x \<in> set acc. x \<noteq> [] \<and> CHR ''/'' \<notin> set x \<Longrightarrow>
   \<forall>x \<in> set (foldl (posix_normpath_step n) acc parts). x \<noteq> [] \<and> CHR ''/'' \<notin> set x"
proof (induction parts arbitrary: acc)
  case Nil
  then show ?case by simp
next
  case (Cons a parts)
  have 1: "\<forall>x \<in> set parts. CHR ''/'' \<notin> set x" and 2: "CHR ''/'' \<notin> set a"
    using Cons.prems(1) by simp_all
  have 3: "\<forall>x \<in> set (posix_normpath_step n acc a). x \<noteq> [] \<and> CHR ''/'' \<notin> set x"
    by (rule posix_step_pres [OF 2 Cons.prems(2)])
  show ?case
    using Cons.IH [OF 1 3] by (simp only: foldl_Cons)
qed

lemma py_split_no_sep_in_parts: "\<forall>x \<in> set (py_split c s). c \<notin> set x"
proof (induction s)
  case Nil
  then show ?case by simp
next
  case (Cons a s)
  then show ?case by (cases "py_split c s") auto
qed

lemma py_join_hd:
  assumes "\<forall>x \<in> set xs. x \<noteq> [] \<and> c \<notin> set x"
  shows "\<not> startswith (py_join sep xs) [c]"
proof (cases xs)
  case Nil
  then show ?thesis by (simp add: startswith_def)
next
  case (Cons x ys)
  with assms obtain a r where "x = a # r" "a \<noteq> c" by (cases x) auto
  then show ?thesis using Cons by (cases ys) (auto simp: startswith_def)
qed

lemma posix_normpath_slashes:
  "(startswith (posix_normpath p) ''/'' \<longleftrightarrow> startswith p ''/'') \<and>
   (startswith (posix_normpath p) ''//'' \<longrightarrow> startswith p ''//'')"
proof (cases "p = []")
  case True
  then show ?thesis by (simp add: posix_normpath_def startswith_def)
next
  case False
  define n where "n = (if startswith p ''/''
                  then (if startswith p ''//'' \<and> \<not> startswith p ''///'' then 2 else 1)
                  else (0::nat))"
  define comps where "comps = foldl (posix_normpath_step n) [] (py_split (CHR ''/'') p)"
  have c: "\<forall>x \<in> set comps. x \<noteq> [] \<and> CHR ''/'' \<notin> set x"
    unfolding comps_def by (rule normpath_comps) (simp_all add: py_split_no_sep_in_parts)
  have j: "\<not> startswith (py_join ''/'' comps) ''/''"
    by (rule py_join_hd [OF c])
  have r: "posix_normpath p =
           (if replicate n (CHR ''/'') @ py_join ''/'' comps = [] then ''.''
            else replicate n (CHR ''/'') @ py_join ''/'' comps)"
    using False by (simp add: posix_normpath_def Let_def n_def comps_def)
  have "n = 0 \<or> n = 1 \<or> n = 2" by (simp add: n_def)
  then consider "n = 0" | "n = 1" | "n = 2" by blast
  then show ?thesis
  proof cases
    case 1
    then have "\<not> startswith p ''/''" by (auto simp: n_def split: if_splits)
    moreover have "\<not> startswith (posix_normpath p) ''/''"
      using j 1 by (auto simp: r startswith_def)
    moreover have "\<not> startswith (posix_normpath p) ''//''"
      using j 1 by (cases "py_join ''/'' comps") (auto simp: r startswith_def)
    ultimately show ?thesis by simp
  next
    case 2
    then have "startswith p ''/''" by (auto simp: n_def split: if_splits)
    moreover have "startswith (posix_normpath p) ''/''"
      using 2 by (simp add: r startswith_def)
    moreover have "\<not> startswith (posix_normpath p) ''//''"
      using j 2 by (cases "py_join ''/'' comps") (auto simp: r startswith_def)
    ultimately show ?thesis by simp
  next
    case 3
    then have "startswith p ''/''" "startswith p ''//''" by (auto simp: n_def split: if_splits)
    moreover have "startswith (posix_normpath p) ''/''"
      using 3 by (simp add: r startswith_def numeral_2_eq_2)
    ultimately show ?thesis by simp
  qed
qed

lemma posix_normpath_nonempty: "posix_normpath p \<noteq> []"
  by (simp add: posix_normpath_def Let_def)

lemma posix_example: "posix_normpath (posix_join ''/a/b'' ''../c'') = ''/a/c''"
  by (simp add: posix_join_def posix_normpath_def posix_normpath_step_def startswith_def Let_def)

lemma nt_example:
  "nt_normpath (nt_join ''/a/b'' ''../c'') = [CHR 0x5C, CHR ''a'', CHR 0x5C, CHR ''c'']"
  by (simp add: nt_join_def nt_normpath_def nt_splitdrive_def
      nt_normpath_step_def nt_sep_def nt_seps_def py_replace_def startswith_def Let_def)

lemma join_create:
  "truthy (path u) \<Longrightarrow>
   join is_win u seg =
     create (scheme u) (authority u)
       (Some (os_path_normpath is_win (os_path_join is_win (the (path u)) seg)))
       (query u) (fragment u)"
  by (simp add: join_def where_uri_create)

lemma create_invariant:
  assumes "create sch auth pth qry frag = Inr u"
  shows "(\<exists>s. scheme u = Some s \<and> SCHEME_match s) \<and> scheme u = sch \<and> authority u = auth \<and>
         query u = qry \<and> fragment u = frag \<and>
         (truthy (authority u) \<and> truthy (path u) \<longrightarrow> startswith (the (path u)) ''/'') \<and>
         (truthy (path u) \<and> startswith (the (path u)) ''//'' \<longrightarrow> truthy (authority u)) \<and>
         (scheme u \<in> {Some ''http'', Some ''https'', Some ''file''} \<longrightarrow>
            startswith (the (path u)) ''/'')"
proof -
  define special where "special = (sch \<in> {Some ''http'', Some ''https'', Some ''file''})"
  define p1 where "p1 = (if special \<and> \<not> startswith (the pth) ''/''
                         then Some (''/'' @ the pth) else pth)"
  have sp: "special \<Longrightarrow> pth \<noteq> None \<Longrightarrow> startswith (the p1) ''/''"
    by (simp add: p1_def startswith_def)
  have cr: "create sch auth pth qry frag =
              (if special then (case pth of None \<Rightarrow> Inl AttributeError
                                | Some p \<Rightarrow> Uri_init sch auth p1 qry frag)
               else Uri_init sch auth p1 qry frag)"
    unfolding create_def special_def [symmetric] p1_def
    by (simp split: option.splits)
  have none: "special \<Longrightarrow> pth \<noteq> None"
    using assms unfolding cr by (cases pth) simp_all
  have i: "Uri_init sch auth p1 qry frag = Inr u"
    using assms unfolding cr by (cases pth) (simp_all split: if_splits)
  then obtain s where s: "sch = Some s" "SCHEME_match s"
    by (auto simp: Uri_init_def split: option.splits if_splits)
  from i s have u: "u = \<lparr>scheme = sch, authority = auth, path = p1, query = qry, fragment = frag\<rparr>"
    by (auto simp: Uri_init_def split: if_splits)
  from i s have a: "\<not> (case (auth, p1) of
                     (Some a, Some p) \<Rightarrow> a \<noteq> [] \<and> p \<noteq> [] \<and> \<not> startswith p ''/''
                   | _ \<Rightarrow> False)"
    by (auto simp: Uri_init_def split: if_splits)
  from i s have d: "\<not> (case p1 of Some p \<Rightarrow> p \<noteq> [] \<and> startswith p ''//'' \<and> \<not> truthy auth
                   | None \<Rightarrow> False)"
    by (auto simp: Uri_init_def split: if_splits)
  have A: "truthy auth \<and> truthy p1 \<longrightarrow> startswith (the p1) ''/''"
    using a by (auto simp: truthy_def split: option.splits)
  have D: "truthy p1 \<and> startswith (the p1) ''//'' \<longrightarrow> truthy auth"
    using d by (auto simp: truthy_def split: option.splits)
  have S: "sch \<in> {Some ''http'', Some ''https'', Some ''file''} \<longrightarrow> startswith (the p1) ''/''"
    using sp none unfolding special_def by blast
  show ?thesis
    unfolding u using s A D S by simp
qed

lemma join_posix_relative:
  assumes created: "create sch auth pth qry frag = Inr u"
    and rel: "\<not> startswith seg ''/''"
  shows "(\<not> truthy (path u) \<longrightarrow> join is_win u seg = Inl (ValueError No_path)) \<and>
         (truthy (path u) \<longrightarrow>
            join False u seg =
              Inr (u\<lparr>path := Some (posix_normpath (posix_join (the (path u)) seg))\<rparr>))"
proof (intro conjI impI)
  assume "\<not> truthy (path u)"
  then show "join is_win u seg = Inl (ValueError No_path)"
    by (simp add: join_def)
next
  assume t: "truthy (path u)"
  define p where "p = the (path u)"
  define np where "np = posix_normpath (posix_join p seg)"
  note inv = create_invariant [OF created]
  from inv obtain s where s: "scheme u = Some s" "SCHEME_match s" by blast
  have pne: "p \<noteq> []" using t by (auto simp: truthy_def p_def split: option.splits)
  note pj = posix_join_relative [OF pne rel]
  note pn = posix_normpath_slashes [of "posix_join p seg"]
  have ne: "np \<noteq> []" by (simp add: np_def posix_normpath_nonempty)
  have sl: "startswith np ''/'' \<longleftrightarrow> startswith p ''/''"
    using pj pn by (simp add: np_def)
  have dsl: "startswith np ''//'' \<Longrightarrow> startswith p ''//''"
    using pj pn by (simp add: np_def)
  have i1: "truthy (authority u) \<Longrightarrow> startswith p ''/''"
    and i2: "startswith p ''//'' \<Longrightarrow> truthy (authority u)"
    and i3: "scheme u \<in> {Some ''http'', Some ''https'', Some ''file''} \<Longrightarrow> startswith p ''/''"
    unfolding p_def using inv t by blast+
  have a: "truthy (authority u) \<Longrightarrow> startswith np ''/''"
    using i1 sl by blast
  have d: "startswith np ''//'' \<Longrightarrow> truthy (authority u)"
    using i2 dsl by blast
  have sp: "scheme u \<in> {Some ''http'', Some ''https'', Some ''file''} \<Longrightarrow> startswith np ''/''"
    using i3 sl by blast
  have rec: "u\<lparr>path := Some np\<rparr> =
        \<lparr>scheme = scheme u, authority = authority u, path = Some np, query = query u,
         fragment = fragment u\<rparr>"
    by simp
  have j: "join False u seg = create (scheme u) (authority u) (Some np) (query u) (fragment u)"
    using join_create [OF t, of False seg]
    by (simp add: np_def p_def os_path_normpath_def os_path_join_def)
  have "create (scheme u) (authority u) (Some np) (query u) (fragment u) = Inr (u\<lparr>path := Some np\<rparr>)"
    using s ne a d sp
    by (cases "authority u") (auto simp: create_def Uri_init_def rec truthy_def)
  with j show "join False u seg =
              Inr (u\<lparr>path := Some (posix_normpath (posix_join (the (path u)) seg))\<rparr>)"
    by (simp add: np_def p_def)
qed

section \<open>Replacing components\<close>

text \<open>
  C5. \<open>u.where(**kwargs)\<close> for every Uri \<open>u\<close>. As amended: the call is
  \<open>create\<close> applied to, for each of the five component names, the value passed for
  it (\<open>None\<close> when an explicit null was passed) and else the component of \<open>u\<close>, so
  the result is validated again; a key outside the five names changes nothing. When
  the call returns a Uri, its scheme, authority, query and fragment are the value
  passed, or that of \<open>u\<close> when the key is left out: an explicit null leaves the
  component \<open>None\<close>, not the empty string. Its path is the value passed or that of
  \<open>u\<close>, with the slash that \<open>create\<close> prepends for http, https and file when it is
  missing. An explicit null for the scheme makes the call raise ("URIs must have a
  scheme").
\<close>

theorem where_uri_components:
  "where_uri u kw =
     create (case kw ''scheme'' of None \<Rightarrow> scheme u | Some v \<Rightarrow> v)
            (case kw ''authority'' of None \<Rightarrow> authority u | Some v \<Rightarrow> v)
            (case kw ''path'' of None \<Rightarrow> path u | Some v \<Rightarrow> v)
            (case kw ''query'' of None \<Rightarrow> query u | Some v \<Rightarrow> v)
            (case kw ''fragment'' of None \<Rightarrow> fragment u | Some v \<Rightarrow> v) \<and>
   (\<forall>k v. k \<notin> uri_keys \<longrightarrow> where_uri u (kw(k \<mapsto> v)) = where_uri u kw) \<and>
   (kw ''scheme'' = Some None \<longrightarrow> where_uri u kw = Inl (ValueError Must_have_scheme)) \<and>
   (\<forall>r. where_uri u kw = Inr r \<longrightarrow>
      scheme r = (case kw ''scheme'' of None \<Rightarrow> scheme u | Some v \<Rightarrow> v) \<and>
      authority r = (case kw ''authority'' of None \<Rightarrow> authority u | Some v \<Rightarrow> v) \<and>
      query r = (case kw ''query'' of None \<Rightarrow> query u | Some v \<Rightarrow> v) \<and>
      fragment r = (case kw ''fragment'' of None \<Rightarrow> fragment u | Some v \<Rightarrow> v) \<and>
      path r =
        (let p = (case kw ''path'' of None \<Rightarrow> path u | Some v \<Rightarrow> v)
         in if scheme r \<in> {Some ''http'', Some ''https'', Some ''file''} \<and>
               \<not> startswith (the p) ''/''
            then Some (''/'' @ the p) else p))"
proof -
  have none: "where_uri u kw = Inl (ValueError Must_have_scheme)" if "kw ''scheme'' = Some None"
    using that by (simp add: where_uri_create create_def Uri_init_def)
  have fields: "scheme r = (case kw ''scheme'' of None \<Rightarrow> scheme u | Some v \<Rightarrow> v) \<and>
      authority r = (case kw ''authority'' of None \<Rightarrow> authority u | Some v \<Rightarrow> v) \<and>
      query r = (case kw ''query'' of None \<Rightarrow> query u | Some v \<Rightarrow> v) \<and>
      fragment r = (case kw ''fragment'' of None \<Rightarrow> fragment u | Some v \<Rightarrow> v) \<and>
      path r =
        (let p = (case kw ''path'' of None \<Rightarrow> path u | Some v \<Rightarrow> v)
         in if scheme r \<in> {Some ''http'', Some ''https'', Some ''file''} \<and>
               \<not> startswith (the p) ''/''
            then Some (''/'' @ the p) else p)"
    if "where_uri u kw = Inr r" for r
  proof -
    from that have c: "create (case kw ''scheme'' of None \<Rightarrow> scheme u | Some v \<Rightarrow> v)
            (case kw ''authority'' of None \<Rightarrow> authority u | Some v \<Rightarrow> v)
            (case kw ''path'' of None \<Rightarrow> path u | Some v \<Rightarrow> v)
            (case kw ''query'' of None \<Rightarrow> query u | Some v \<Rightarrow> v)
            (case kw ''fragment'' of None \<Rightarrow> fragment u | Some v \<Rightarrow> v) = Inr r"
      by (simp only: where_uri_create)
    from create_Inr_fields [OF c] show ?thesis
      by (simp only: Let_def)
  qed
  show ?thesis
    using none fields where_uri_unknown_key where_uri_create by blast
qed

theorem where_uri_components_witness:
  "where_uri \<lparr>scheme = Some ''http'', authority = Some ''host'', path = Some ''/a'',
              query = Some ''q'', fragment = Some ''f''\<rparr>
     [''zzz'' \<mapsto> Some ''1'', ''query'' \<mapsto> None, ''fragment'' \<mapsto> Some ''top''] =
     Inr \<lparr>scheme = Some ''http'', authority = Some ''host'', path = Some ''/a'',
          query = None, fragment = Some ''top''\<rparr>"
proof -
  have s: "SCHEME_match ''http''"
    by (simp add: SCHEME_match_def char_class_defs)
  show ?thesis
    using where_uri_components [of "\<lparr>scheme = Some ''http'', authority = Some ''host'',
        path = Some ''/a'', query = Some ''q'', fragment = Some ''f''\<rparr>"
        "[''zzz'' \<mapsto> Some ''1'', ''query'' \<mapsto> None, ''fragment'' \<mapsto> Some ''top'']"] s
    by (simp add: create_def Uri_init_def startswith_def truthy_def)
qed

theorem where_uri_null_counterexample:
  "where_uri \<lparr>scheme = Some ''http'', authority = Some ''host'', path = Some ''/a'',
              query = Some ''q'', fragment = Some ''f''\<rparr> [''query'' \<mapsto> None] =
     Inr \<lparr>scheme = Some ''http'', authority = Some ''host'', path = Some ''/a'',
          query = None, fragment = Some ''f''\<rparr> \<and>
   (None :: string option) \<noteq> Some '''' \<and>
   where_uri \<lparr>scheme = Some ''http'', authority = Some ''host'', path = Some ''/a'',
              query = Some ''q'', fragment = Some ''f''\<rparr> [''scheme'' \<mapsto> None] =
     Inl (ValueError Must_have_scheme) \<and>
   where_uri \<lparr>scheme = Some ''x'', authority = Some '''', path = Some ''a'',
              query = Some '''', fragment = Some ''''\<rparr> [''scheme'' \<mapsto> Some ''file''] =
     Inr \<lparr>scheme = Some ''file'', authority = Some '''', path = Some ''/a'',
          query = Some '''', fragment = Some ''''\<rparr>"
proof -
  have s: "SCHEME_match ''http''" "SCHEME_match ''file''"
    by (simp_all add: SCHEME_match_def char_class_defs)
  show ?thesis
    using s by (simp add: where_uri_create create_def Uri_init_def startswith_def truthy_def)
qed

section \<open>Joining paths\<close>

text \<open>
  C6. \<open>u.join(segment)\<close> raises ("This uri has no path") when the path of \<open>u\<close> is
  empty, and else returns \<open>u\<close> with only the path replaced, by the normalised
  concatenation of the path and the segment: with path \<open>/a/b\<close>, \<open>join("../c")\<close> has
  path \<open>/a/c\<close>. The method computes the new path with \<open>os.path\<close>. Where that is
  \<open>posixpath\<close> the result is the one described, for every Uri that \<open>create\<close> returns and
  every relative segment (lemma \<open>join_posix_relative\<close>). On Windows \<open>os.path\<close> is
  \<open>ntpath\<close>, which joins and normalises with backslashes: for the Uri of
  \<open>file:///a/b\<close>, \<open>join("../c")\<close> returns a Uri whose path is \<open>/a/c\<close> with a backslash
  in place of each slash and one more slash in front; and for a Uri with an
  authority and a scheme other than http, https and file, the new path starts with
  a backslash and is refused by the validation of the new Uri.
\<close>

theorem join_windows_separator:
  "join True \<lparr>scheme = Some ''file'', authority = Some '''', path = Some ''/a/b'',
              query = Some '''', fragment = Some ''''\<rparr> ''../c'' =
     Inr \<lparr>scheme = Some ''file'', authority = Some '''',
          path = Some [CHR ''/'', CHR 0x5C, CHR ''a'', CHR 0x5C, CHR ''c''],
          query = Some '''', fragment = Some ''''\<rparr> \<and>
   join True \<lparr>scheme = Some ''x'', authority = Some ''host'', path = Some ''/a/b'',
              query = Some '''', fragment = Some ''''\<rparr> ''../c'' =
     Inl (ValueError Authority_needs_slash) \<and>
   join False \<lparr>scheme = Some ''file'', authority = Some '''', path = Some ''/a/b'',
               query = Some '''', fragment = Some ''''\<rparr> ''../c'' =
     Inr \<lparr>scheme = Some ''file'', authority = Some '''', path = Some ''/a/c'',
          query = Some '''', fragment = Some ''''\<rparr>"
proof -
  have s: "SCHEME_match ''file''" "SCHEME_match ''x''"
    by (simp_all add: SCHEME_match_def char_class_defs)
  show ?thesis
    using s
    by (simp add: join_create truthy_def os_path_normpath_def os_path_join_def nt_example
        posix_example create_def Uri_init_def startswith_def)
qed

end
